theory Spec2Isabelle
  imports Main "HOL-Library.Word" "HOL-Library.Sublist"
begin

section \<open>The compliance policy filter (boring.go)\<close>

subsection \<open>Constant tables\<close>

text \<open>
  The identifiers below are declared in the package's constant tables (common.go,
  cipher_suites.go), which are not among the sources at hand; boring.go only names them.
  They are 16-bit code points of the TLS registries, given here with their registry values.
  No theorem below depends on a particular value, only on the names being distinct.
\<close>

type_synonym CurveID = "16 word"
type_synonym SignatureScheme = "16 word"

definition VersionTLS12 :: "16 word" where "VersionTLS12 = 0x0303"

definition CurveP256 :: CurveID where "CurveP256 = 23"
definition CurveP384 :: CurveID where "CurveP384 = 24"
definition CurveP521 :: CurveID where "CurveP521 = 25"

definition TLS_RSA_WITH_AES_128_GCM_SHA256 :: "16 word" where
  "TLS_RSA_WITH_AES_128_GCM_SHA256 = 0x009c"
definition TLS_RSA_WITH_AES_256_GCM_SHA384 :: "16 word" where
  "TLS_RSA_WITH_AES_256_GCM_SHA384 = 0x009d"
definition TLS_ECDHE_ECDSA_WITH_AES_128_GCM_SHA256 :: "16 word" where
  "TLS_ECDHE_ECDSA_WITH_AES_128_GCM_SHA256 = 0xc02b"
definition TLS_ECDHE_ECDSA_WITH_AES_256_GCM_SHA384 :: "16 word" where
  "TLS_ECDHE_ECDSA_WITH_AES_256_GCM_SHA384 = 0xc02c"
definition TLS_ECDHE_RSA_WITH_AES_128_GCM_SHA256 :: "16 word" where
  "TLS_ECDHE_RSA_WITH_AES_128_GCM_SHA256 = 0xc02f"
definition TLS_ECDHE_RSA_WITH_AES_256_GCM_SHA384 :: "16 word" where
  "TLS_ECDHE_RSA_WITH_AES_256_GCM_SHA384 = 0xc030"

definition PKCS1WithSHA1 :: SignatureScheme where "PKCS1WithSHA1 = 0x0201"
definition ECDSAWithSHA1 :: SignatureScheme where "ECDSAWithSHA1 = 0x0203"
definition PKCS1WithSHA256 :: SignatureScheme where "PKCS1WithSHA256 = 0x0401"
definition PKCS1WithSHA384 :: SignatureScheme where "PKCS1WithSHA384 = 0x0501"
definition PKCS1WithSHA512 :: SignatureScheme where "PKCS1WithSHA512 = 0x0601"
definition ECDSAWithP256AndSHA256 :: SignatureScheme where "ECDSAWithP256AndSHA256 = 0x0403"
definition ECDSAWithP384AndSHA384 :: SignatureScheme where "ECDSAWithP384AndSHA384 = 0x0503"
definition ECDSAWithP521AndSHA512 :: SignatureScheme where "ECDSAWithP521AndSHA512 = 0x0603"
definition PSSWithSHA256 :: SignatureScheme where "PSSWithSHA256 = 0x0804"
definition PSSWithSHA384 :: SignatureScheme where "PSSWithSHA384 = 0x0805"
definition PSSWithSHA512 :: SignatureScheme where "PSSWithSHA512 = 0x0806"
definition Ed25519 :: SignatureScheme where "Ed25519 = 0x0807"

subsection \<open>Configuration\<close>

text \<open>
  A Go slice is \<open>nil\<close> or a (possibly empty) sequence; the two are told apart by
  \<open>s == nil\<close> but not by \<open>len(s) == 0\<close>. A slice-valued field is therefore an
  optional list, \<open>None\<close> for \<open>nil\<close>. \<open>*Config\<close> is an optional record, \<open>None\<close>
  for the nil pointer. The record is extensible: the fields boring.go never reads are
  the record's extension.
\<close>

record Config =
  CurvePreferences :: "CurveID list option"
  CipherSuites :: "16 word list option"

definition len :: "'a list option \<Rightarrow> nat" where
  "len s = (case s of None \<Rightarrow> 0 | Some xs \<Rightarrow> length xs)"

definition elems :: "'a list option \<Rightarrow> 'a list" where
  "elems s = (case s of None \<Rightarrow> [] | Some xs \<Rightarrow> xs)"

subsection \<open>Versions\<close>

definition fipsMinVersion :: "'a Config_scheme option \<Rightarrow> 16 word" where
  "fipsMinVersion c = VersionTLS12"

definition fipsMaxVersion :: "'a Config_scheme option \<Rightarrow> 16 word" where
  "fipsMaxVersion c = VersionTLS12"

subsection \<open>Curves and cipher suites\<close>

definition defaultFIPSCurvePreferences :: "CurveID list" where
  "defaultFIPSCurvePreferences = [CurveP256, CurveP384, CurveP521]"

definition defaultFIPSCipherSuites :: "16 word list" where
  "defaultFIPSCipherSuites =
    [TLS_ECDHE_RSA_WITH_AES_128_GCM_SHA256,
     TLS_ECDHE_RSA_WITH_AES_256_GCM_SHA384,
     TLS_ECDHE_ECDSA_WITH_AES_128_GCM_SHA256,
     TLS_ECDHE_ECDSA_WITH_AES_256_GCM_SHA384,
     TLS_RSA_WITH_AES_128_GCM_SHA256,
     TLS_RSA_WITH_AES_256_GCM_SHA384]"

text \<open>
  The inner loop of both filters: walk the allow-list, append the identifier (\<open>id\<close> in the
  source, a constant of HOL) to \<open>list\<close> at the first match and stop (\<open>break\<close>).
\<close>

fun appendIfAllowed :: "'a \<Rightarrow> 'a list \<Rightarrow> 'a list \<Rightarrow> 'a list" where
  "appendIfAllowed ident [] list = list"
| "appendIfAllowed ident (allowed # rest) list =
     (if ident = allowed then list @ [ident] else appendIfAllowed ident rest list)"

text \<open>The outer loop: over the configured identifiers, in their order.\<close>

fun restrictLoop :: "'a list \<Rightarrow> 'a list \<Rightarrow> 'a list \<Rightarrow> 'a list" where
  "restrictLoop [] alloweds list = list"
| "restrictLoop (ident # ids) alloweds list =
     restrictLoop ids alloweds (appendIfAllowed ident alloweds list)"

definition fipsCurvePreferences :: "'a Config_scheme option \<Rightarrow> CurveID list" where
  "fipsCurvePreferences c =
     (case c of
        None \<Rightarrow> defaultFIPSCurvePreferences
      | Some cfg \<Rightarrow>
          if len (CurvePreferences cfg) = 0 then defaultFIPSCurvePreferences
          else restrictLoop (elems (CurvePreferences cfg)) defaultFIPSCurvePreferences [])"

definition fipsCipherSuites :: "'a Config_scheme option \<Rightarrow> 16 word list" where
  "fipsCipherSuites c =
     (case c of
        None \<Rightarrow> defaultFIPSCipherSuites
      | Some cfg \<Rightarrow>
          if CipherSuites cfg = None then defaultFIPSCipherSuites
          else restrictLoop (elems (CipherSuites cfg)) defaultFIPSCipherSuites [])"

subsection \<open>Certificates\<close>

text \<open>
  \<open>x509.Certificate.PublicKey\<close> is an interface value; the type switch of
  \<open>isBoringCertificate\<close> tells \<open>*rsa.PublicKey\<close> and \<open>*ecdsa.PublicKey\<close> from every
  other dynamic type (\<open>OtherKey\<close>, tagged with the type's name). The other fields of the
  certificate are the record's extension.
\<close>

record rsa_PublicKey =
  N :: int
  E :: int

record CurveParams =
  Name :: string
  BitSize :: int

record ecdsa_PublicKey =
  Curve :: CurveParams
  X :: int
  Y :: int

datatype PublicKey =
    RSAKey rsa_PublicKey
  | ECDSAKey ecdsa_PublicKey
  | OtherKey string

record Certificate =
  Raw :: "8 word list"
  SerialNumber :: int
  Subject :: string
  Issuer :: string
  PublicKey :: PublicKey

text \<open>
  \<open>big.Int.BitLen\<close>: the length in bits of the absolute value, 0 for 0.
\<close>

fun natBitLen :: "nat \<Rightarrow> nat" where
  "natBitLen n = (if n = 0 then 0 else Suc (natBitLen (n div 2)))"

declare natBitLen.simps [simp del]

definition BitLen :: "int \<Rightarrow> nat" where
  "BitLen x = natBitLen (nat \<bar>x\<bar>)"

text \<open>
  The first argument is the value of \<open>needFIPS()\<close>, the process-wide compliance flag. The
  switch falls through to \<open>return true\<close> when the size or the curve name is accepted.
\<close>

definition isBoringCertificate :: "bool \<Rightarrow> 'a Certificate_scheme \<Rightarrow> bool" where
  "isBoringCertificate needFIPS c =
     (if \<not> needFIPS then True
      else (case PublicKey c of
              OtherKey _ \<Rightarrow> False
            | RSAKey k \<Rightarrow>
                (let size = BitLen (N k) in
                 if size \<noteq> 2048 \<and> size \<noteq> 3072 then False else True)
            | ECDSAKey k \<Rightarrow>
                (let name = Name (Curve k) in
                 if name \<noteq> ''P-256'' \<and> name \<noteq> ''P-384'' then False else True)))"

subsection \<open>Signature algorithms\<close>

definition fipsSupportedSignatureAlgorithms :: "SignatureScheme list" where
  "fipsSupportedSignatureAlgorithms =
    [PSSWithSHA256,
     PSSWithSHA384,
     PSSWithSHA512,
     PKCS1WithSHA256,
     ECDSAWithP256AndSHA256,
     PKCS1WithSHA384,
     ECDSAWithP384AndSHA384,
     PKCS1WithSHA512,
     ECDSAWithP521AndSHA512]"

text \<open>
  \<open>defaultSupportedSignatureAlgorithms\<close> is a table of common.go, not among the sources:
  it is the second argument. The first is the value of \<open>needFIPS()\<close>.
\<close>

definition supportedSignatureAlgorithms ::
  "bool \<Rightarrow> SignatureScheme list \<Rightarrow> SignatureScheme list" where
  "supportedSignatureAlgorithms needFIPS defaultSupportedSignatureAlgorithms =
     (if \<not> needFIPS then defaultSupportedSignatureAlgorithms
      else fipsSupportedSignatureAlgorithms)"

text \<open>
  The earlier revision of the file (src/unnamed/part\_000) works on hash and signature
  pairs and cuts the default table at its first SHA-1 entry.
\<close>

record signatureAndHash =
  hash :: "8 word"
  signature :: "8 word"

definition hashSHA1 :: "8 word" where "hashSHA1 = 2"

function scanToSHA1 :: "signatureAndHash list \<Rightarrow> nat \<Rightarrow> nat" where
  "scanToSHA1 all i =
     (if i < length all \<and> hash (all ! i) \<noteq> hashSHA1 then scanToSHA1 all (i + 1) else i)"
  by pat_completeness auto
termination
  by (relation "measure (\<lambda>(all, i). length all - i)") auto

declare scanToSHA1.simps [simp del]

definition supportedSignatureAlgorithms_part000 ::
  "bool \<Rightarrow> signatureAndHash list \<Rightarrow> signatureAndHash list" where
  "supportedSignatureAlgorithms_part000 needFIPS defaultSupportedSignatureAlgorithms =
     (let all = defaultSupportedSignatureAlgorithms in
      if \<not> needFIPS then all
      else take (scanToSHA1 all 0) all)"

section \<open>The ServerHello codec and its SCT list\<close>

text \<open>
  The encoders and parsers of the handshake messages (handshake\_messages.go) are not among
  the sources; only their test is. What follows models, from spec.md and from the bytes
  the test writes, the one message the test pins down to the byte: the ServerHello with
  its list of signed certificate timestamps (SCTs). What neither the spec nor the test
  fixes is a parameter: the type tag of the message, the type of the SCT extension, and
  the policy on lengths that are larger than needed.
\<close>

type_synonym byte = "8 word"
type_synonym bytes = "byte list"

text \<open>
  Modelled from the spec: the fields of a ServerHello (section 3, and the generator of the
  test, lines 156 to 184): version, 32-byte random, session id, chosen cipher suite, chosen
  compression method, SCT list. The structure itself is declared in the absent file. The
  four other optional fields (next-protocol list, OCSP-stapling flag, session-ticket flag,
  ALPN protocol) are left out: the spec gives no wire layout for their extensions, and the
  messages of the SCT tests leave them unset.
\<close>

record serverHelloMsg =
  vers :: "16 word"
  random :: bytes
  sessionId :: bytes
  cipherSuite :: "16 word"
  compressionMethod :: byte
  scts :: "bytes list"

text \<open>
  Modelled from the spec: what section 4.1 leaves open about lengths. Whether a parser
  compares the length in the header with the number of bytes that follow, and whether
  bytes after a length-prefixed block are an error, is said nowhere; the absent parser
  decides it. Both are flags, and the theorems hold for every value of them.
\<close>

record policy =
  checkHeaderLength :: bool
  rejectTrailing :: bool

subsection \<open>Integers and length prefixes\<close>

text \<open>
  Modelled from the spec: 16-bit values (version, cipher suite, extension type) on the
  wire, high byte first as every integer of section 4.1. The absent encoders write them.
\<close>

definition putU16 :: "16 word \<Rightarrow> bytes" where
  "putU16 v = [ucast (drop_bit 8 v), ucast v]"

text \<open>Modelled from the spec: the 16-bit value of two bytes, high byte first; the inverse
  of the absent encoders' 16-bit writes.\<close>

definition getU16 :: "byte \<Rightarrow> byte \<Rightarrow> 16 word" where
  "getU16 b0 b1 = or (push_bit 8 (ucast b0)) (ucast b1)"

text \<open>Modelled from the spec: a 1-byte length prefix (section 4.1: the session id has a
  1-byte length prefix); the absent encoders write it.\<close>

definition putLen8 :: "nat \<Rightarrow> bytes" where
  "putLen8 n = [of_nat n]"

text \<open>Modelled from the spec: a 2-byte big-endian length prefix (section 4.1: extension
  lengths and the length of the extension block are 2 bytes).\<close>

definition putLen16 :: "nat \<Rightarrow> bytes" where
  "putLen16 n = [of_nat (n div 256), of_nat n]"

text \<open>Modelled from the spec: the 3-byte big-endian body length of the message header
  (section 4.1).\<close>

definition putLen24 :: "nat \<Rightarrow> bytes" where
  "putLen24 n = [of_nat (n div 65536), of_nat (n div 256), of_nat n]"

text \<open>Modelled from the spec: the number a 2-byte big-endian length prefix declares.\<close>

definition be16 :: "byte \<Rightarrow> byte \<Rightarrow> nat" where
  "be16 b0 b1 = unat b0 * 256 + unat b1"

text \<open>Modelled from the spec: the number the 3-byte big-endian length of the header
  declares.\<close>

definition be24 :: "byte \<Rightarrow> byte \<Rightarrow> byte \<Rightarrow> nat" where
  "be24 b0 b1 b2 = unat b0 * 65536 + unat b1 * 256 + unat b2"

text \<open>Modelled from the spec: a variable-length field with a 1-byte length prefix
  (section 4.1), as the absent encoder writes the session id.\<close>

definition vec8 :: "bytes \<Rightarrow> bytes" where
  "vec8 xs = putLen8 (length xs) @ xs"

text \<open>Modelled from the spec: a variable-length field with a 2-byte length prefix
  (section 4.1), as the absent encoder writes an extension's payload, the extension block,
  the SCT list and each SCT.\<close>

definition vec16 :: "bytes \<Rightarrow> bytes" where
  "vec16 xs = putLen16 (length xs) @ xs"

text \<open>Modelled from the spec: the header common to every message (section 4.1): a
  type-tag byte, the 3-byte big-endian body length, then the body. The tag's value is not
  given and is a parameter.\<close>

definition header :: "byte \<Rightarrow> bytes \<Rightarrow> bytes" where
  "header tag body = tag # putLen24 (length body) @ body"

subsection \<open>Guarded reads\<close>

text \<open>Modelled from the spec: a read of a fixed number of bytes; it fails on
  insufficient bytes for a fixed-size field (section 4.1, parse contract). The absent
  parser's slices do this.\<close>

definition readBytes :: "nat \<Rightarrow> bytes \<Rightarrow> (bytes \<times> bytes) option" where
  "readBytes n d = (if length d < n then None else Some (take n d, drop n d))"

text \<open>Modelled from the spec: a read of one byte, failing on empty input.\<close>

definition readU8 :: "bytes \<Rightarrow> (byte \<times> bytes) option" where
  "readU8 d = (case d of [] \<Rightarrow> None | b # rest \<Rightarrow> Some (b, rest))"

text \<open>Modelled from the spec: a read of a 16-bit value, failing on fewer than two
  bytes.\<close>

definition readU16 :: "bytes \<Rightarrow> (16 word \<times> bytes) option" where
  "readU16 d =
     (case d of b0 # b1 # rest \<Rightarrow> Some (getU16 b0 b1, rest) | _ \<Rightarrow> None)"

text \<open>Modelled from the spec: a read of a field with a 1-byte length prefix; it fails
  when the declared length exceeds the remaining input (section 4.1, parse contract).\<close>

definition readVec8 :: "bytes \<Rightarrow> (bytes \<times> bytes) option" where
  "readVec8 d =
     (case d of [] \<Rightarrow> None | b # rest \<Rightarrow> readBytes (unat b) rest)"

text \<open>Modelled from the spec: a read of a field with a 2-byte length prefix; it fails
  when the declared length exceeds the remaining input (section 4.1, parse contract).\<close>

definition readVec16 :: "bytes \<Rightarrow> (bytes \<times> bytes) option" where
  "readVec16 d =
     (case d of b0 # b1 # rest \<Rightarrow> readBytes (be16 b0 b1) rest | _ \<Rightarrow> None)"

lemma readBytes_shorter: "readBytes n d = Some (v, rest) \<Longrightarrow> length rest \<le> length d"
  by (auto simp: readBytes_def split: if_splits)

lemma readVec16_shorter: "readVec16 d = Some (v, rest) \<Longrightarrow> length rest < length d"
  by (auto simp: readVec16_def split: list.splits dest!: readBytes_shorter)

lemma readU16_shorter: "readU16 d = Some (v, rest) \<Longrightarrow> length rest < length d"
  by (auto simp: readU16_def split: list.splits)


subsection \<open>Extensions\<close>

text \<open>Modelled from the spec: one extension on the wire (section 4.1, extension parsing):
  a 2-byte type, a 2-byte length, then that many bytes of payload. The absent encoder
  writes each extension so.\<close>

definition extension :: "16 word \<Rightarrow> bytes \<Rightarrow> bytes" where
  "extension t payload = putU16 t @ vec16 payload"

text \<open>Modelled from the spec: the SCT list inside its extension, as the test fixes it
  (lines 277 to 286: the six bytes before the SCT are the extension length, the list
  length and the SCT's length, two bytes each; an empty list is the payload 0, 0): a 2-byte
  list length, then each SCT with a 2-byte length.\<close>

definition sctList :: "bytes list \<Rightarrow> bytes" where
  "sctList ss = vec16 (concat (map vec16 ss))"

text \<open>Modelled from the spec: the loop of the absent parser over the entries of an SCT
  list: each entry is a 2-byte length and that many bytes, and an entry of length zero is
  a parse error (section 3: every entry must be non-empty; section 4.1).\<close>

function parseSCTs :: "bytes \<Rightarrow> bytes list option" where
  "parseSCTs d =
     (if d = [] then Some []
      else (case readVec16 d of
              None \<Rightarrow> None
            | Some (s, rest) \<Rightarrow>
                if s = [] then None
                else (case parseSCTs rest of
                        None \<Rightarrow> None
                      | Some ss \<Rightarrow> Some (s # ss))))"
  by pat_completeness auto
termination
  by (relation "measure length") (auto dest: readVec16_shorter)

declare parseSCTs.simps [simp del]

text \<open>Modelled from the spec: what the absent parser does with one extension of a
  ServerHello (section 4.1, extension parsing). The SCT extension (its type is the
  parameter \<open>sct\<close>) holds a list that must not be empty and whose entries must not be
  empty, both fatal; every other type is skipped, as unknown types are.\<close>

definition handleServerExtension ::
  "policy \<Rightarrow> 16 word \<Rightarrow> 16 word \<Rightarrow> bytes \<Rightarrow> serverHelloMsg \<Rightarrow> serverHelloMsg option" where
  "handleServerExtension p sct t payload m =
     (if t = sct then
        (case readVec16 payload of
           None \<Rightarrow> None
         | Some (l, rest) \<Rightarrow>
             if l = [] \<or> (rejectTrailing p \<and> rest \<noteq> []) then None
             else (case parseSCTs l of
                     None \<Rightarrow> None
                   | Some ss \<Rightarrow> Some (m\<lparr>scts := ss\<rparr>)))
      else Some m)"

text \<open>Modelled from the spec: the loop of the absent parser over the extension block
  (section 4.1): a sequence of (2-byte type, 2-byte length, payload) entries, read until
  the block is used up; a truncated entry or a failing extension fails the parse.\<close>

function parseExtensions ::
  "policy \<Rightarrow> 16 word \<Rightarrow> bytes \<Rightarrow> serverHelloMsg \<Rightarrow> serverHelloMsg option" where
  "parseExtensions p sct d m =
     (if d = [] then Some m
      else (case readU16 d of
              None \<Rightarrow> None
            | Some (t, d1) \<Rightarrow>
                (case readVec16 d1 of
                   None \<Rightarrow> None
                 | Some (payload, rest) \<Rightarrow>
                     (case handleServerExtension p sct t payload m of
                        None \<Rightarrow> None
                      | Some m' \<Rightarrow> parseExtensions p sct rest m'))))"
  by pat_completeness auto
termination
  by (relation "measure (\<lambda>(p, sct, d, m). length d)")
     (auto dest!: readU16_shorter readVec16_shorter)

declare parseExtensions.simps [simp del]

subsection \<open>The message\<close>

text \<open>Modelled from the spec: the extensions the absent encoder writes for a ServerHello
  of this model: the SCT extension when the message has SCTs (the test's message with the
  one empty SCT is written with its extension, line 312), nothing otherwise (an absent
  optional field is absent on the wire).\<close>

definition serverHelloExtensions :: "16 word \<Rightarrow> serverHelloMsg \<Rightarrow> bytes" where
  "serverHelloExtensions sct m =
     (if scts m \<noteq> [] then extension sct (sctList (scts m)) else [])"

text \<open>Modelled from the spec: the body of a ServerHello around a given extension block
  (section 3; section 4.1): version, 32-byte random, session id with a 1-byte length,
  cipher suite, compression method, then, when there are extensions, their block with a
  2-byte length; with no extensions nothing follows the compression method. The test
  confirms the offsets: with an empty session id the block's length is at bytes 42 and
  43 of the message (lines 294 and 295).\<close>

definition serverHelloBody :: "serverHelloMsg \<Rightarrow> bytes \<Rightarrow> bytes" where
  "serverHelloBody m exts =
     putU16 (vers m) @ random m @ vec8 (sessionId m) @ putU16 (cipherSuite m) @
     [compressionMethod m] @ (if exts = [] then [] else vec16 exts)"

text \<open>Modelled from the spec: \<open>serverHelloMsg.marshal\<close> of the absent file: the header
  of section 4.1 around the body. The tag's value is a parameter.\<close>

definition marshal :: "byte \<Rightarrow> 16 word \<Rightarrow> serverHelloMsg \<Rightarrow> bytes" where
  "marshal tag sct m = header tag (serverHelloBody m (serverHelloExtensions sct m))"

text \<open>Modelled from the spec: the absent parser's treatment of the header (section
  4.1): four bytes must be there; the tag is the dispatcher's business; the declared body
  length is compared with what follows only under the policy's flag.\<close>

definition readHeader :: "policy \<Rightarrow> bytes \<Rightarrow> bytes option" where
  "readHeader p d =
     (case d of
        tag # b0 # b1 # b2 # body \<Rightarrow>
          if checkHeaderLength p \<and> be24 b0 b1 b2 \<noteq> length body then None else Some body
      | _ \<Rightarrow> None)"

text \<open>Modelled from the spec: \<open>serverHelloMsg.unmarshal\<close> of the absent file (section
  4.1, parse contract): the fixed fields in order, each read failing on insufficient
  bytes; then either nothing, the extension block being optional, or the block with its
  2-byte length and the extensions in it. The result is a message or a failure.\<close>

definition unmarshal :: "policy \<Rightarrow> 16 word \<Rightarrow> bytes \<Rightarrow> serverHelloMsg option" where
  "unmarshal p sct d =
     (case readHeader p d of None \<Rightarrow> None | Some body \<Rightarrow>
      case readU16 body of None \<Rightarrow> None | Some (v, d1) \<Rightarrow>
      case readBytes 32 d1 of None \<Rightarrow> None | Some (r, d2) \<Rightarrow>
      case readVec8 d2 of None \<Rightarrow> None | Some (sid, d3) \<Rightarrow>
      case readU16 d3 of None \<Rightarrow> None | Some (cs, d4) \<Rightarrow>
      case readU8 d4 of None \<Rightarrow> None | Some (cm, d5) \<Rightarrow>
        (let m = \<lparr>vers = v, random = r, sessionId = sid, cipherSuite = cs,
                  compressionMethod = cm, scts = []\<rparr>
         in if d5 = [] then Some m
            else (case readVec16 d5 of
                    None \<Rightarrow> None
                  | Some (exts, rest) \<Rightarrow>
                      if rejectTrailing p \<and> rest \<noteq> [] then None
                      else parseExtensions p sct exts m)))"

text \<open>Modelled from the spec: the field constraints under which a message can be written
  (section 4.1: field lengths fit the wire format's integer widths): a 32-byte random, a
  session id within its 1-byte length, SCTs and their list within their 2-byte lengths.\<close>

definition fits :: "serverHelloMsg \<Rightarrow> bool" where
  "fits m \<longleftrightarrow>
     length (random m) = 32 \<and> length (sessionId m) < 256 \<and>
     list_all (\<lambda>s. length s < 65536) (scts m) \<and>
     length (concat (map vec16 (scts m))) < 65530"

section \<open>Properties of the compliance policy filter\<close>

lemma appendIfAllowed_eq:
  "appendIfAllowed ident alloweds list =
     (if ident \<in> set alloweds then list @ [ident] else list)"
  by (induction alloweds) auto

lemma restrictLoop_eq:
  "restrictLoop ids alloweds list = list @ filter (\<lambda>ident. ident \<in> set alloweds) ids"
  by (induction ids arbitrary: list) (auto simp: appendIfAllowed_eq)

lemma natBitLen_pow2: "natBitLen (2 ^ k) = Suc k"
proof (induction k)
  case 0
  have "natBitLen (Suc 0) = Suc (natBitLen 0)"
    by (subst natBitLen.simps) simp
  also have "natBitLen 0 = 0"
    by (subst natBitLen.simps) simp
  finally show ?case by simp
next
  case (Suc k)
  have "natBitLen (2 ^ Suc k) = Suc (natBitLen (2 ^ Suc k div 2))"
    by (subst natBitLen.simps) simp
  with Suc show ?case by simp
qed

lemma BitLen_pow2: "BitLen (2 ^ k) = Suc k"
proof -
  have "nat \<bar>2 ^ k :: int\<bar> = 2 ^ k"
    by (simp add: nat_power_eq)
  then show ?thesis
    unfolding BitLen_def by (simp only: natBitLen_pow2)
qed

text \<open>
  C9. Under compliance mode the version allow-list is one value: for every configuration,
  the nil pointer included, \<open>fipsMinVersion\<close> and \<open>fipsMaxVersion\<close> both return
  \<open>VersionTLS12\<close>, whatever the configuration's fields hold.
\<close>

theorem fips_versions_are_TLS12:
  "fipsMinVersion c = VersionTLS12 \<and> fipsMaxVersion c = VersionTLS12"
  by (simp add: fipsMinVersion_def fipsMaxVersion_def)


theorem fips_versions_are_TLS12_witness:
  "fipsMinVersion (None :: Config option) = 0x0303 \<and>
   fipsMaxVersion (Some \<lparr>CurvePreferences = Some [29], CipherSuites = Some [0x1301]\<rparr>) = 0x0303"
  using fips_versions_are_TLS12 [of "None :: Config option"]
    fips_versions_are_TLS12 [of "Some \<lparr>CurvePreferences = Some [29], CipherSuites = Some [0x1301]\<rparr>"]
  by (simp add: VersionTLS12_def)

text \<open>
  C5, as the code has it. Both filters return the configured identifiers that are on the
  allow-list, in the caller's order and as often as the caller lists them. The curve
  filter returns the whole allow-list, in its own order, when the configuration is nil or
  its curve list is nil or empty. The cipher-suite filter returns the whole allow-list
  when the configuration is nil or its cipher-suite list is nil; a cipher-suite list that
  is empty but not nil is filtered like any other, and the result is empty.
\<close>

theorem fips_restrict_is_ordered_filter:
  "fipsCurvePreferences c =
     (case c of
        None \<Rightarrow> defaultFIPSCurvePreferences
      | Some cfg \<Rightarrow>
          (case CurvePreferences cfg of
             None \<Rightarrow> defaultFIPSCurvePreferences
           | Some [] \<Rightarrow> defaultFIPSCurvePreferences
           | Some ids \<Rightarrow> filter (\<lambda>x. x \<in> set defaultFIPSCurvePreferences) ids)) \<and>
   fipsCipherSuites c =
     (case c of
        None \<Rightarrow> defaultFIPSCipherSuites
      | Some cfg \<Rightarrow>
          (case CipherSuites cfg of
             None \<Rightarrow> defaultFIPSCipherSuites
           | Some ids \<Rightarrow> filter (\<lambda>x. x \<in> set defaultFIPSCipherSuites) ids)) \<and>
   subseq (fipsCurvePreferences c)
     (case c of
        None \<Rightarrow> defaultFIPSCurvePreferences
      | Some cfg \<Rightarrow>
          if len (CurvePreferences cfg) = 0 then defaultFIPSCurvePreferences
          else elems (CurvePreferences cfg)) \<and>
   subseq (fipsCipherSuites c)
     (case c of
        None \<Rightarrow> defaultFIPSCipherSuites
      | Some cfg \<Rightarrow>
          if CipherSuites cfg = None then defaultFIPSCipherSuites
          else elems (CipherSuites cfg))"
  by (auto simp: fipsCurvePreferences_def fipsCipherSuites_def restrictLoop_eq len_def
      elems_def split: option.splits list.splits)

theorem fips_restrict_is_ordered_filter_witness:
  "fipsCipherSuites
     (Some \<lparr>CurvePreferences = None, CipherSuites = Some [0x1301, 0xc02f, 0x0005, 0x009c, 0xc02f]\<rparr>)
     = [0xc02f, 0x009c, 0xc02f] \<and>
   fipsCurvePreferences
     (Some \<lparr>CurvePreferences = Some [25, 29, 23], CipherSuites = None\<rparr>) = [25, 23] \<and>
   fipsCurvePreferences
     (Some \<lparr>CurvePreferences = Some [], CipherSuites = None\<rparr>) = [23, 24, 25] \<and>
   fipsCipherSuites (None :: Config option)
     = [0xc02f, 0xc030, 0xc02b, 0xc02c, 0x009c, 0x009d]"
  using fips_restrict_is_ordered_filter
      [of "Some \<lparr>CurvePreferences = None, CipherSuites = Some [0x1301, 0xc02f, 0x0005, 0x009c, 0xc02f]\<rparr>"]
    fips_restrict_is_ordered_filter
      [of "Some \<lparr>CurvePreferences = Some [25, 29, 23], CipherSuites = None\<rparr>"]
    fips_restrict_is_ordered_filter
      [of "Some \<lparr>CurvePreferences = Some [], CipherSuites = None\<rparr>"]
    fips_restrict_is_ordered_filter [of "None :: Config option"]
  by (simp add: defaultFIPSCurvePreferences_def defaultFIPSCipherSuites_def
      CurveP256_def CurveP384_def CurveP521_def
      TLS_RSA_WITH_AES_128_GCM_SHA256_def TLS_RSA_WITH_AES_256_GCM_SHA384_def
      TLS_ECDHE_ECDSA_WITH_AES_128_GCM_SHA256_def TLS_ECDHE_ECDSA_WITH_AES_256_GCM_SHA384_def
      TLS_ECDHE_RSA_WITH_AES_128_GCM_SHA256_def TLS_ECDHE_RSA_WITH_AES_256_GCM_SHA384_def)

text \<open>
  C5, as the claim states it, fails: a configuration whose cipher-suite list is empty but
  not nil has an empty configured list, and \<open>fipsCipherSuites\<close> returns the empty list
  for it, not the allow-list.
\<close>

theorem fipsCipherSuites_empty_list_counterexample:
  "len (CipherSuites \<lparr>CurvePreferences = None, CipherSuites = Some []\<rparr>) = 0 \<and>
   fipsCipherSuites (Some \<lparr>CurvePreferences = None, CipherSuites = Some []\<rparr>) = [] \<and>
   fipsCipherSuites (Some \<lparr>CurvePreferences = None, CipherSuites = Some []\<rparr>)
     \<noteq> defaultFIPSCipherSuites"
  by (simp add: fipsCipherSuites_def len_def elems_def defaultFIPSCipherSuites_def)

text \<open>
  C6. With compliance mode off every certificate is acceptable. With compliance mode on a
  certificate is acceptable exactly when its public key is an RSA key whose modulus has
  2048 or 3072 bits, or an ECDSA key on the curve named P-256 or P-384; every other key
  type, curve and RSA size is refused.
\<close>

theorem isBoringCertificate_iff:
  "isBoringCertificate needFIPS c \<longleftrightarrow>
     (\<not> needFIPS \<or>
      (\<exists>k. PublicKey c = RSAKey k \<and> (BitLen (N k) = 2048 \<or> BitLen (N k) = 3072)) \<or>
      (\<exists>k. PublicKey c = ECDSAKey k \<and>
           (Name (Curve k) = ''P-256'' \<or> Name (Curve k) = ''P-384'')))"
  by (auto simp: isBoringCertificate_def Let_def split: PublicKey.splits)

theorem isBoringCertificate_iff_witness:
  "isBoringCertificate True
     \<lparr>Raw = [], SerialNumber = 1, Subject = ''a'', Issuer = ''b'',
      PublicKey = RSAKey \<lparr>N = 2 ^ 2047, E = 65537\<rparr>\<rparr> \<and>
   isBoringCertificate True
     \<lparr>Raw = [], SerialNumber = 1, Subject = ''a'', Issuer = ''b'',
      PublicKey = RSAKey \<lparr>N = 2 ^ 3071, E = 65537\<rparr>\<rparr> \<and>
   \<not> isBoringCertificate True
     \<lparr>Raw = [], SerialNumber = 1, Subject = ''a'', Issuer = ''b'',
      PublicKey = RSAKey \<lparr>N = 2 ^ 1023, E = 65537\<rparr>\<rparr> \<and>
   \<not> isBoringCertificate True
     \<lparr>Raw = [], SerialNumber = 1, Subject = ''a'', Issuer = ''b'',
      PublicKey = RSAKey \<lparr>N = 2 ^ 4095, E = 65537\<rparr>\<rparr> \<and>
   isBoringCertificate True
     \<lparr>Raw = [], SerialNumber = 1, Subject = ''a'', Issuer = ''b'',
      PublicKey = ECDSAKey \<lparr>Curve = \<lparr>Name = ''P-384'', BitSize = 384\<rparr>, X = 1, Y = 2\<rparr>\<rparr> \<and>
   \<not> isBoringCertificate True
     \<lparr>Raw = [], SerialNumber = 1, Subject = ''a'', Issuer = ''b'',
      PublicKey = OtherKey ''ed25519.PublicKey''\<rparr> \<and>
   isBoringCertificate False
     \<lparr>Raw = [], SerialNumber = 1, Subject = ''a'', Issuer = ''b'',
      PublicKey = OtherKey ''ed25519.PublicKey''\<rparr>"
  using BitLen_pow2 [of 2047] BitLen_pow2 [of 3071] BitLen_pow2 [of 1023] BitLen_pow2 [of 4095]
    isBoringCertificate_iff [of True
      "\<lparr>Raw = [], SerialNumber = 1, Subject = ''a'', Issuer = ''b'',
        PublicKey = RSAKey \<lparr>N = 2 ^ 2047, E = 65537\<rparr>\<rparr>"]
    isBoringCertificate_iff [of True
      "\<lparr>Raw = [], SerialNumber = 1, Subject = ''a'', Issuer = ''b'',
        PublicKey = RSAKey \<lparr>N = 2 ^ 3071, E = 65537\<rparr>\<rparr>"]
    isBoringCertificate_iff [of True
      "\<lparr>Raw = [], SerialNumber = 1, Subject = ''a'', Issuer = ''b'',
        PublicKey = RSAKey \<lparr>N = 2 ^ 1023, E = 65537\<rparr>\<rparr>"]
    isBoringCertificate_iff [of True
      "\<lparr>Raw = [], SerialNumber = 1, Subject = ''a'', Issuer = ''b'',
        PublicKey = RSAKey \<lparr>N = 2 ^ 4095, E = 65537\<rparr>\<rparr>"]
    isBoringCertificate_iff [of True
      "\<lparr>Raw = [], SerialNumber = 1, Subject = ''a'', Issuer = ''b'',
        PublicKey = ECDSAKey \<lparr>Curve = \<lparr>Name = ''P-384'', BitSize = 384\<rparr>, X = 1, Y = 2\<rparr>\<rparr>"]
    isBoringCertificate_iff [of True
      "\<lparr>Raw = [], SerialNumber = 1, Subject = ''a'', Issuer = ''b'',
        PublicKey = OtherKey ''ed25519.PublicKey''\<rparr>"]
    isBoringCertificate_iff [of False
      "\<lparr>Raw = [], SerialNumber = 1, Subject = ''a'', Issuer = ''b'',
        PublicKey = OtherKey ''ed25519.PublicKey''\<rparr>"]
  by simp


text \<open>
  C7. The two allow-lists differ on P-521: it is on the default curve list, so the curve
  filter returns it for a nil configuration and for a configuration with no curves, yet
  in compliance mode a certificate with an ECDSA key on the curve named P-521 is refused.
\<close>

theorem P521_allowed_curve_but_refused_key:
  "CurveP521 \<in> set defaultFIPSCurvePreferences \<and>
   CurveP521 \<in> set (fipsCurvePreferences None) \<and>
   (len (CurvePreferences cfg) = 0 \<longrightarrow> CurveP521 \<in> set (fipsCurvePreferences (Some cfg))) \<and>
   (PublicKey c = ECDSAKey k \<and> Name (Curve k) = ''P-521'' \<longrightarrow> \<not> isBoringCertificate True c)"
  by (simp add: fipsCurvePreferences_def defaultFIPSCurvePreferences_def
      isBoringCertificate_def)

theorem P521_allowed_curve_but_refused_key_witness:
  "CurveP521 \<in> set (fipsCurvePreferences (Some \<lparr>CurvePreferences = Some [], CipherSuites = None\<rparr>)) \<and>
   \<not> isBoringCertificate True
     \<lparr>Raw = [], SerialNumber = 7, Subject = ''leaf'', Issuer = ''ca'',
      PublicKey = ECDSAKey \<lparr>Curve = \<lparr>Name = ''P-521'', BitSize = 521\<rparr>, X = 3, Y = 4\<rparr>\<rparr>"
  using P521_allowed_curve_but_refused_key
    [of "\<lparr>CurvePreferences = Some [], CipherSuites = None\<rparr>"
        "\<lparr>Raw = [], SerialNumber = 7, Subject = ''leaf'', Issuer = ''ca'',
          PublicKey = ECDSAKey \<lparr>Curve = \<lparr>Name = ''P-521'', BitSize = 521\<rparr>, X = 3, Y = 4\<rparr>\<rparr>"
        "\<lparr>Curve = \<lparr>Name = ''P-521'', BitSize = 521\<rparr>, X = 3, Y = 4\<rparr>"]
  by (auto simp: len_def)

lemma scanToSHA1_step:
  "i < length all \<Longrightarrow> hash (all ! i) \<noteq> hashSHA1 \<Longrightarrow> scanToSHA1 all i = scanToSHA1 all (i + 1)"
  by (subst scanToSHA1.simps) simp

lemma scanToSHA1_stop:
  "\<not> (i < length all \<and> hash (all ! i) \<noteq> hashSHA1) \<Longrightarrow> scanToSHA1 all i = i"
  by (subst scanToSHA1.simps) auto

lemma scanToSHA1_no_SHA1:
  "i \<le> j \<Longrightarrow> j < scanToSHA1 all i \<Longrightarrow> hash (all ! j) \<noteq> hashSHA1"
proof (induction all i rule: scanToSHA1.induct)
  case (1 all i)
  show ?case
  proof (cases "i < length all \<and> hash (all ! i) \<noteq> hashSHA1")
    case True
    with "1.prems" have j: "j < scanToSHA1 all (i + 1)"
      by (simp add: scanToSHA1_step)
    show ?thesis
    proof (cases "j = i")
      case True
      with \<open>i < length all \<and> hash (all ! i) \<noteq> hashSHA1\<close> show ?thesis by simp
    next
      case False
      with "1.prems" have "i + 1 \<le> j" by simp
      with "1.IH" True j show ?thesis by blast
    qed
  next
    case False
    with "1.prems" show ?thesis by (simp add: scanToSHA1_stop)
  qed
qed




text \<open>
  C10. The verdict is a function of the compliance flag and the public key alone: two
  certificates with the same public key get the same verdict under the same flag, whatever
  their other fields (including the fields of the record's extension) hold. Of the key,
  only its type and, for RSA, the bit length of the modulus, for ECDSA, the name of the
  curve, are read.
\<close>

theorem isBoringCertificate_depends_on_key_only:
  "(PublicKey c1 = PublicKey c2 \<longrightarrow>
      isBoringCertificate needFIPS c1 = isBoringCertificate needFIPS c2) \<and>
   (PublicKey c1 = RSAKey r1 \<and> PublicKey c2 = RSAKey r2 \<and> BitLen (N r1) = BitLen (N r2) \<longrightarrow>
      isBoringCertificate needFIPS c1 = isBoringCertificate needFIPS c2) \<and>
   (PublicKey c1 = ECDSAKey e1 \<and> PublicKey c2 = ECDSAKey e2 \<and>
    Name (Curve e1) = Name (Curve e2) \<longrightarrow>
      isBoringCertificate needFIPS c1 = isBoringCertificate needFIPS c2) \<and>
   (PublicKey c1 = OtherKey t1 \<and> PublicKey c2 = OtherKey t2 \<longrightarrow>
      isBoringCertificate needFIPS c1 = isBoringCertificate needFIPS c2)"
  by (simp add: isBoringCertificate_def)

theorem isBoringCertificate_depends_on_key_only_witness:
  "isBoringCertificate True
     \<lparr>Raw = [1, 2, 3], SerialNumber = 10, Subject = ''leaf'', Issuer = ''root'',
      PublicKey = ECDSAKey \<lparr>Curve = \<lparr>Name = ''P-256'', BitSize = 256\<rparr>, X = 5, Y = 6\<rparr>\<rparr>
   = isBoringCertificate True
     \<lparr>Raw = [], SerialNumber = 99, Subject = ''other'', Issuer = ''self'',
      PublicKey = ECDSAKey \<lparr>Curve = \<lparr>Name = ''P-256'', BitSize = 256\<rparr>, X = 5, Y = 6\<rparr>\<rparr>"
  using isBoringCertificate_depends_on_key_only
    [of "\<lparr>Raw = [1, 2, 3], SerialNumber = 10, Subject = ''leaf'', Issuer = ''root'',
          PublicKey = ECDSAKey \<lparr>Curve = \<lparr>Name = ''P-256'', BitSize = 256\<rparr>, X = 5, Y = 6\<rparr>\<rparr>"
        "\<lparr>Raw = [], SerialNumber = 99, Subject = ''other'', Issuer = ''self'',
          PublicKey = ECDSAKey \<lparr>Curve = \<lparr>Name = ''P-256'', BitSize = 256\<rparr>, X = 5, Y = 6\<rparr>\<rparr>"
        True]
  by simp

section \<open>Properties of the ServerHello codec\<close>

lemma getU16_putU16: "getU16 (ucast (drop_bit 8 v)) (ucast v) = v"
  unfolding getU16_def
  by (rule bit_word_eqI) (auto simp: bit_simps)

lemma unat_of_nat_byte: "unat (of_nat n :: byte) = n mod 256"
  by (simp add: unat_of_nat)

lemma be16_putLen16: "n < 65536 \<Longrightarrow> be16 (of_nat (n div 256)) (of_nat n) = n"
  unfolding be16_def unat_of_nat_byte by simp

lemma be24_putLen24:
  assumes "n < 16777216"
  shows "be24 (of_nat (n div 65536)) (of_nat (n div 256)) (of_nat n) = n"
proof -
  define a where "a = n div 256"
  have 1: "n = a * 256 + n mod 256" by (simp add: a_def)
  have 2: "a = a div 256 * 256 + a mod 256" by simp
  have 3: "a div 256 = n div 65536" by (simp add: a_def div_mult2_eq)
  have "n < 256 * 65536" using assms by simp
  then have 4: "n div 65536 < 256" by (rule less_mult_imp_div_less)
  then have 5: "n div 65536 mod 256 = n div 65536" by simp
  have "n div 65536 * 65536 + a mod 256 * 256 + n mod 256 = n"
    using 1 2 3 by linarith
  then show ?thesis
    unfolding be24_def unat_of_nat_byte 5 a_def .
qed

lemma length_putU16 [simp]: "length (putU16 v) = 2"
  by (simp add: putU16_def)

lemma length_vec8 [simp]: "length (vec8 v) = 1 + length v"
  by (simp add: vec8_def putLen8_def)

lemma length_vec16 [simp]: "length (vec16 v) = 2 + length v"
  by (simp add: vec16_def putLen16_def)

lemma vec16_ne [simp]: "vec16 v \<noteq> []"
  by (simp add: vec16_def putLen16_def)

lemma length_extension [simp]: "length (extension t payload) = 4 + length payload"
  by (simp add: extension_def)

lemma extension_ne [simp]: "extension t payload \<noteq> []"
  by (simp add: extension_def putU16_def)

lemma readBytes_append [simp]: "readBytes (length v) (v @ rest) = Some (v, rest)"
  by (simp add: readBytes_def)

lemma readBytes_random: "length v = 32 \<Longrightarrow> readBytes 32 (v @ rest) = Some (v, rest)"
  using readBytes_append [of v rest] by simp

lemma readU8_Cons [simp]: "readU8 (b # rest) = Some (b, rest)"
  by (simp add: readU8_def)

lemma readU16_putU16 [simp]: "readU16 (putU16 v @ rest) = Some (v, rest)"
  by (simp add: readU16_def putU16_def getU16_putU16)

lemma readVec8_vec8 [simp]:
  "length v < 256 \<Longrightarrow> readVec8 (vec8 v @ rest) = Some (v, rest)"
  by (simp add: readVec8_def vec8_def putLen8_def unat_of_nat_byte)

lemma readVec16_vec16 [simp]:
  "length v < 65536 \<Longrightarrow> readVec16 (vec16 v @ rest) = Some (v, rest)"
  by (simp add: readVec16_def vec16_def putLen16_def be16_putLen16)

lemma readVec16_vec16_end [simp]:
  "length v < 65536 \<Longrightarrow> readVec16 (vec16 v) = Some (v, [])"
  using readVec16_vec16 [of v "[]"] by simp

lemma readHeader_header:
  "length body < 16777216 \<Longrightarrow> readHeader p (header tag body) = Some body"
  by (simp add: readHeader_def header_def putLen24_def be24_putLen24)

lemma parseSCTs_Nil [simp]: "parseSCTs [] = Some []"
  by (simp add: parseSCTs.simps)

lemma parseSCTs_Cons:
  "length s < 65536 \<Longrightarrow>
   parseSCTs (vec16 s @ rest) =
     (if s = [] then None
      else (case parseSCTs rest of None \<Rightarrow> None | Some ss \<Rightarrow> Some (s # ss)))"
  by (subst parseSCTs.simps) simp

lemma parseSCTs_concat:
  "list_all (\<lambda>s. length s < 65536) ss \<Longrightarrow>
   parseSCTs (concat (map vec16 ss)) = (if [] \<in> set ss then None else Some ss)"
  by (induction ss) (auto simp: parseSCTs_Cons)

lemma parseExtensions_Nil [simp]: "parseExtensions p sct [] m = Some m"
  by (simp add: parseExtensions.simps)

lemma parseExtensions_extension:
  "length payload < 65536 \<Longrightarrow>
   parseExtensions p sct (extension t payload @ rest) m =
     (case handleServerExtension p sct t payload m of
        None \<Rightarrow> None
      | Some m' \<Rightarrow> parseExtensions p sct rest m')"
  by (subst parseExtensions.simps) (simp add: extension_def)

lemma putLen16_0 [simp]: "putLen16 0 = [0, 0]"
  by (simp add: putLen16_def)

lemma handle_empty_list [simp]:
  "handleServerExtension p sct sct (0 # 0 # junk) m = None"
  by (simp add: handleServerExtension_def readVec16_def be16_def readBytes_def)

lemma concat_vec16_Nil [simp]: "concat (map vec16 ss) = [] \<longleftrightarrow> ss = []"
  by (cases ss) simp_all

lemma handle_sctList:
  "list_all (\<lambda>s. length s < 65536) ss \<Longrightarrow> length (concat (map vec16 ss)) < 65536 \<Longrightarrow>
   handleServerExtension p sct sct (sctList ss) m =
     (if ss = [] \<or> [] \<in> set ss then None else Some (m\<lparr>scts := ss\<rparr>))"
  by (simp add: handleServerExtension_def sctList_def parseSCTs_concat)

lemma parseExtensions_empty_list:
  "list_all (\<lambda>(t, payload). length payload < 65536) es \<Longrightarrow> length junk < 65534 \<Longrightarrow>
   parseExtensions p sct
     (concat (map (\<lambda>(t, payload). extension t payload) es) @
      extension sct (putLen16 0 @ junk) @ post) m = None"
proof (induction es arbitrary: m)
  case Nil
  then show ?case
    by (simp add: parseExtensions_extension)
next
  case (Cons e es)
  obtain t payload where e: "e = (t, payload)" by (cases e)
  from Cons.prems e have len: "length payload < 65536" by simp
  from Cons.prems have rest: "list_all (\<lambda>(t, payload). length payload < 65536) es" by simp
  show ?case
    using Cons.IH [OF rest Cons.prems(2)]
    by (simp add: e parseExtensions_extension [OF len] split: option.splits)
qed


lemma unmarshal_header_body:
  assumes r: "length (random m) = 32" and sid: "length (sessionId m) < 256"
    and el: "length exts < 65536"
  shows "unmarshal p sct (header tag (serverHelloBody m exts)) =
           (if exts = [] then Some (m\<lparr>scts := []\<rparr>)
            else parseExtensions p sct exts (m\<lparr>scts := []\<rparr>))"
proof -
  from r sid el have "length (serverHelloBody m exts) < 16777216"
    by (simp add: serverHelloBody_def)
  then have h: "readHeader p (header tag (serverHelloBody m exts)) = Some (serverHelloBody m exts)"
    by (rule readHeader_header)
  have base: "\<lparr>vers = vers m, random = random m, sessionId = sessionId m,
      cipherSuite = cipherSuite m, compressionMethod = compressionMethod m, scts = []\<rparr>
    = m\<lparr>scts := []\<rparr>"
    by (cases m) simp
  show ?thesis
    unfolding unmarshal_def h
    by (simp add: serverHelloBody_def readBytes_random [OF r] sid el base)
qed

lemma unmarshal_marshal:
  assumes f: "fits m"
  shows "unmarshal p sct (marshal tag sct m) = (if [] \<in> set (scts m) then None else Some m)"
proof -
  from f have r: "length (random m) = 32" and sid: "length (sessionId m) < 256"
    and all: "list_all (\<lambda>s. length s < 65536) (scts m)"
    and tot: "length (concat (map vec16 (scts m))) < 65530"
    by (simp_all add: fits_def)
  from tot have el: "length (serverHelloExtensions sct m) < 65536"
    by (simp add: serverHelloExtensions_def sctList_def)
  from tot have pl: "length (sctList (scts m)) < 65536"
    by (simp add: sctList_def)
  from tot have tot': "length (concat (map vec16 (scts m))) < 65536" by simp
  show ?thesis
  proof (cases "scts m = []")
    case True
    then show ?thesis
      unfolding marshal_def unmarshal_header_body [OF r sid el]
      by (simp add: serverHelloExtensions_def)
  next
    case False
    have "parseExtensions p sct (extension sct (sctList (scts m))) (m\<lparr>scts := []\<rparr>) =
        (if [] \<in> set (scts m) then None else Some m)"
      using parseExtensions_extension [OF pl, of p sct sct "[]" "m\<lparr>scts := []\<rparr>"]
        handle_sctList [OF all tot', of p sct "m\<lparr>scts := []\<rparr>"] False
      by simp
    with False show ?thesis
      unfolding marshal_def unmarshal_header_body [OF r sid el]
      by (simp add: serverHelloExtensions_def)
  qed
qed




end
